theory Spec2Isabelle
  imports Complex_Main "HOL-Library.Sublist" "HOL-Library.Word"
begin

section \<open>Data model\<close>

text \<open>
  The service of \<^verbatim>\<open>backend/app.py\<close>, the dataset builder of
  \<^verbatim>\<open>backend/extract_landmarks.py\<close> and the trainer of
  \<^verbatim>\<open>backend/train_model.py\<close>. Python floats are read as the real numbers they
  denote (no NaN, no infinity); the literal \<^verbatim>\<open>0.3\<close> is read as three tenths.
  The libraries the code calls (OpenCV's decoder, the MediaPipe detector, the fitted
  scikit-learn model, numpy's \<^verbatim>\<open>argsort\<close> and the float formatter) are fields
  of an environment record: the code is modelled around them, for every value they may
  return. \<open>decode_image\<close> is what OpenCV's decoder makes of a non-empty buffer: an
  image, or nothing when the bytes are no image. \<open>mp_detect\<close> lists the hands the
  detector finds in an image, best first, before the cap \<^verbatim>\<open>max_num_hands\<close> of the
  \<^verbatim>\<open>Hands\<close> object applies.
\<close>

type_synonym byte = "8 word"

text \<open>A decoded colour image: rows of pixels, three channels each.\<close>

type_synonym pixel = "byte \<times> byte \<times> byte"
type_synonym image = "pixel list list"

text \<open>One keypoint of the detector; the code reads \<^verbatim>\<open>lm.x\<close> and \<^verbatim>\<open>lm.y\<close> only.\<close>

record landmark =
  lm_x :: real
  lm_y :: real
  lm_z :: real

text \<open>A pandas data frame: the column names and the rows of values.\<close>

record dataframe =
  df_columns :: "string list"
  df_rows :: "real list list"

datatype py_exception =
    ValueError string
  | IndexError string
  | CvError string
  | OtherException string

fun str_of_exception :: "py_exception \<Rightarrow> string" where
  "str_of_exception (ValueError m) = m"
| "str_of_exception (IndexError m) = m"
| "str_of_exception (CvError m) = m"
| "str_of_exception (OtherException m) = m"

datatype json =
    JNull
  | JStr string
  | JNum real
  | JArr "json list"
  | JObj "(string \<times> json) list"

text \<open>
  What a Flask view hands back: a JSON body with a status, a file sent from the frontend
  directory, or an exception that leaves the view.
\<close>

datatype outcome =
    Response nat json
  | SendFromDirectory string
  | Unhandled py_exception

record request =
  files :: "string \<rightharpoonup> byte list"

record env =
  decode_image :: "byte list \<Rightarrow> image option"
  mp_detect :: "image \<Rightarrow> landmark list list"
  model_predict_proba :: "dataframe \<Rightarrow> py_exception + real list list"
  model_classes :: "string list"
  np_argsort :: "real list \<Rightarrow> nat list"
  format_2f :: "real \<Rightarrow> string"

fun json_get :: "string \<Rightarrow> json \<Rightarrow> json option" where
  "json_get k (JObj kvs) = map_of kvs k"
| "json_get k _ = None"

fun status_of :: "outcome \<Rightarrow> nat option" where
  "status_of (Response st b) = Some st"
| "status_of _ = None"

fun body_of :: "outcome \<Rightarrow> json" where
  "body_of (Response st b) = b"
| "body_of _ = JNull"

section \<open>Python and numpy primitives\<close>

text \<open>The decimal text of a natural number, as an f-string prints it.\<close>

definition digit_char :: "nat \<Rightarrow> char" where
  "digit_char d = ''0123456789'' ! d"

fun str_nat :: "nat \<Rightarrow> string" where
  "str_nat n = (if n < 10 then [digit_char n] else str_nat (n div 10) @ [digit_char (n mod 10)])"

declare str_nat.simps [simp del]

text \<open>Indexing a sequence with a non-negative index; out of range raises.\<close>

definition getitem :: "'a list \<Rightarrow> nat \<Rightarrow> py_exception + 'a" where
  "getitem xs i =
     (if i < length xs then Inr (xs ! i)
      else Inl (IndexError (''index '' @ str_nat i @ '' is out of bounds for axis 0 with size ''
                            @ str_nat (length xs))))"

text \<open>\<^verbatim>\<open>np.argmax\<close>: the first index of the maximum; an empty sequence raises.\<close>

definition np_argmax :: "real list \<Rightarrow> py_exception + nat" where
  "np_argmax ps =
     (if ps = [] then Inl (ValueError ''attempt to get argmax of an empty sequence'')
      else Inr (length (takeWhile (\<lambda>p. p \<noteq> Max (set ps)) ps)))"

text \<open>
  The contract of \<^verbatim>\<open>np.argsort\<close>: a permutation of the indices that lists the values
  in ascending order. The default sort kind is not stable, so the order of equal values
  is left open.
\<close>

definition is_argsort :: "real list \<Rightarrow> nat list \<Rightarrow> bool" where
  "is_argsort ps idx \<longleftrightarrow> sort idx = [0..<length ps] \<and> sorted (map (\<lambda>i. ps ! i) idx)"

text \<open>One argsort that meets the contract: insertion sort, which keeps equal values in index order.\<close>

definition stable_argsort :: "real list \<Rightarrow> nat list" where
  "stable_argsort ps = sort_key (\<lambda>i. ps ! i) [0..<length ps]"

text \<open>The slice \<^verbatim>\<open>[-3:]\<close> and the reversal \<^verbatim>\<open>[::-1]\<close>.\<close>

definition last3 :: "'a list \<Rightarrow> 'a list" where
  "last3 xs = drop (length xs - 3) xs"

definition reversed :: "'a list \<Rightarrow> 'a list" where
  "reversed xs = rev xs"

text \<open>A list comprehension whose body may raise: the first exception ends it.\<close>

fun comprehension :: "('a \<Rightarrow> py_exception + 'b) \<Rightarrow> 'a list \<Rightarrow> py_exception + 'b list" where
  "comprehension f [] = Inr []"
| "comprehension f (x # xs) =
     (case f x of
        Inl e \<Rightarrow> Inl e
      | Inr y \<Rightarrow> (case comprehension f xs of Inl e \<Rightarrow> Inl e | Inr ys \<Rightarrow> Inr (y # ys)))"

text \<open>\<^verbatim>\<open>sub in s\<close> on strings, and \<^verbatim>\<open>s.startswith(p)\<close>.\<close>

fun str_contains :: "string \<Rightarrow> string \<Rightarrow> bool" where
  "str_contains sub [] = (sub = [])"
| "str_contains sub (c # cs) = (prefix sub (c # cs) \<or> str_contains sub cs)"

definition startswith :: "string \<Rightarrow> string \<Rightarrow> bool" where
  "startswith s p = prefix p s"

text \<open>
  \<^verbatim>\<open>cv2.imdecode(buf, cv2.IMREAD_COLOR)\<close>: an empty buffer fails the assertion
  \<^verbatim>\<open>!buf.empty()\<close> and raises \<^verbatim>\<open>cv2.error\<close> (its text is shortened here); any other
  buffer gives the decoded image, or \<^verbatim>\<open>None\<close> when it does not decode.
\<close>

definition cv2_imdecode :: "env \<Rightarrow> byte list \<Rightarrow> py_exception + image option" where
  "cv2_imdecode env buf =
     (if buf = [] then Inl (CvError ''(-215:Assertion failed) !buf.empty() in function imdecode_'')
      else Inr (decode_image env buf))"

text \<open>\<^verbatim>\<open>cv2.cvtColor(img, cv2.COLOR_BGR2RGB)\<close> swaps the first and third channel.\<close>

definition cvtColor_BGR2RGB :: "image \<Rightarrow> image" where
  "cvtColor_BGR2RGB img = map (map (\<lambda>(b, g, r). (r, g, b))) img"

text \<open>
  \<^verbatim>\<open>pd.DataFrame(rows, columns=names)\<close>: every row must have as many values as there
  are names.
\<close>

definition pd_DataFrame :: "real list list \<Rightarrow> string list \<Rightarrow> py_exception + dataframe" where
  "pd_DataFrame data names =
     (case filter (\<lambda>r. length r \<noteq> length names) data of
        [] \<Rightarrow> Inr \<lparr>df_columns = names, df_rows = data\<rparr>
      | r # _ \<Rightarrow> Inl (ValueError (str_nat (length names) @ '' columns passed, passed data had ''
                                 @ str_nat (length r) @ '' columns'')))"

section \<open>The service: \<^verbatim>\<open>backend/app.py\<close>\<close>

text \<open>
  The detector object \<^verbatim>\<open>hands\<close> is built with \<^verbatim>\<open>max_num_hands=1\<close>; its
  \<^verbatim>\<open>process\<close> gives \<^verbatim>\<open>multi_hand_landmarks\<close>: \<^verbatim>\<open>None\<close> when no hand is found,
  else at most \<open>max_num_hands\<close> landmark sets.
\<close>

definition max_num_hands :: nat where
  "max_num_hands = 1"

definition hands_process :: "env \<Rightarrow> image \<Rightarrow> landmark list list option" where
  "hands_process env img_rgb =
     (case take max_num_hands (mp_detect env img_rgb) of
        [] \<Rightarrow> None
      | hs \<Rightarrow> Some hs)"


text \<open>The column names built by the loop over \<^verbatim>\<open>range(21)\<close>.\<close>

definition feature_names :: "string list" where
  "feature_names = fold (\<lambda>i names. names @ [''x'' @ str_nat i, ''y'' @ str_nat i]) [0..<21] []"

text \<open>The flattening loop over the landmarks of one hand.\<close>

definition flatten_coords :: "landmark list \<Rightarrow> real list" where
  "flatten_coords hand_landmarks = fold (\<lambda>lm coords. coords @ [lm_x lm, lm_y lm]) hand_landmarks []"

definition extract_landmarks :: "env \<Rightarrow> image \<Rightarrow> py_exception + dataframe option" where
  "extract_landmarks env img_bgr =
     (let img_rgb = cvtColor_BGR2RGB img_bgr;
          result = hands_process env img_rgb
      in case result of
           None \<Rightarrow> Inr None
         | Some [] \<Rightarrow> Inr None
         | Some (hand_landmarks # _) \<Rightarrow>
             (let coords = flatten_coords hand_landmarks
              in case pd_DataFrame [coords] feature_names of
                   Inl e \<Rightarrow> Inl e
                 | Inr df \<Rightarrow> Inr (Some df)))"

definition confidence_threshold :: real where
  "confidence_threshold = 3 / 10"

text \<open>The three best candidates, best first: the comprehension of both answers.\<close>

definition top_predictions :: "env \<Rightarrow> real list \<Rightarrow> py_exception + json list" where
  "top_predictions env probs =
     comprehension
       (\<lambda>i. case getitem (model_classes env) i of
               Inl e \<Rightarrow> Inl e
             | Inr label \<Rightarrow>
                 (case getitem probs i of
                    Inl e \<Rightarrow> Inl e
                  | Inr p \<Rightarrow> Inr (JObj [(''label'', JStr label), (''confidence'', JNum p)])))
       (reversed (last3 (np_argsort env probs)))"

text \<open>The body of the \<^verbatim>\<open>try\<close> block: \<open>Inl\<close> is an exception raised inside it.\<close>

definition predict_try :: "env \<Rightarrow> dataframe \<Rightarrow> py_exception + outcome" where
  "predict_try env landmarks =
     (case model_predict_proba env landmarks of
        Inl e \<Rightarrow> Inl e
      | Inr proba \<Rightarrow>
     (case getitem proba 0 of
        Inl e \<Rightarrow> Inl e
      | Inr probs \<Rightarrow>
     (case np_argmax probs of
        Inl e \<Rightarrow> Inl e
      | Inr best_idx \<Rightarrow>
     (case getitem (model_classes env) best_idx of
        Inl e \<Rightarrow> Inl e
      | Inr best_label \<Rightarrow>
     (case getitem probs best_idx of
        Inl e \<Rightarrow> Inl e
      | Inr best_prob \<Rightarrow>
          if best_prob < confidence_threshold then
            (case top_predictions env probs of
               Inl e \<Rightarrow> Inl e
             | Inr tops \<Rightarrow>
                 Inr (Response 200 (JObj
                   [(''prediction'', JNull),
                    (''message'', JStr (''low confidence ('' @ format_2f env best_prob @ '')'')),
                    (''top_predictions'', JArr tops)])))
          else
            (case top_predictions env probs of
               Inl e \<Rightarrow> Inl e
             | Inr tops \<Rightarrow>
                 Inr (Response 200 (JObj
                   [(''prediction'', JStr best_label),
                    (''confidence'', JNum best_prob),
                    (''top_predictions'', JArr tops)]))))))))"

text \<open>
  The view of \<^verbatim>\<open>POST /predict\<close>. Beside the outcome it returns the arguments of every
  call of \<^verbatim>\<open>model.predict_proba\<close> it made, in order. The decoder and the encoder are
  called before the \<^verbatim>\<open>try\<close> block, so an exception of theirs leaves the view.
\<close>

definition predict :: "env \<Rightarrow> request \<Rightarrow> outcome \<times> dataframe list" where
  "predict env req =
     (case files req ''frame'' of
        None \<Rightarrow> (Response 400 (JObj [(''error'', JStr ''missing frame'')]), [])
      | Some img_bytes \<Rightarrow>
     (case cv2_imdecode env img_bytes of
        Inl e \<Rightarrow> (Unhandled e, [])
      | Inr None \<Rightarrow> (Response 400 (JObj [(''error'', JStr ''invalid image'')]), [])
      | Inr (Some img) \<Rightarrow>
     (case extract_landmarks env img of
        Inl e \<Rightarrow> (Unhandled e, [])
      | Inr None \<Rightarrow>
          (Response 200 (JObj [(''prediction'', JNull), (''message'', JStr ''no hand detected'')]), [])
      | Inr (Some landmarks) \<Rightarrow>
          (case predict_try env landmarks of
             Inr resp \<Rightarrow> (resp, [landmarks])
           | Inl e \<Rightarrow> (Response 500 (JObj [(''error'', JStr (str_of_exception e))]), [landmarks])))))"

text \<open>The view of \<^verbatim>\<open>GET /<path>\<close>; \<open>frontend_isdir\<close> is \<^verbatim>\<open>os.path.isdir(FRONTEND_DIR)\<close>.\<close>

definition allowed :: "string list" where
  "allowed = [''index.html'', ''script.js'', ''style.css'']"

definition frontend_static :: "bool \<Rightarrow> string \<Rightarrow> outcome" where
  "frontend_static frontend_isdir path =
     (if \<not> frontend_isdir then Response 404 (JObj [(''error'', JStr ''Not found'')])
      else if path \<in> set allowed then SendFromDirectory path
      else if startswith path ''assets/'' \<and> \<not> str_contains ''..'' path then SendFromDirectory path
      else Response 404 (JObj [(''error'', JStr ''Not found'')]))"

section \<open>The dataset builder: \<^verbatim>\<open>backend/extract_landmarks.py\<close>\<close>

text \<open>The header row of the CSV file.\<close>

definition header :: "string list" where
  "header = fold (\<lambda>i h. h @ [''x'' @ str_nat i, ''y'' @ str_nat i]) [0..<21] [] @ [''label'']"

text \<open>The row written for one detected hand: its coordinates, then the label as text.\<close>

datatype cell = Num real | Text string

definition dataset_row :: "landmark list \<Rightarrow> string \<Rightarrow> cell list" where
  "dataset_row hand_landmarks label =
     fold (\<lambda>lm row. row @ [Num (lm_x lm), Num (lm_y lm)]) hand_landmarks [] @ [Text label]"

section \<open>The trainer: \<^verbatim>\<open>backend/train_model.py\<close>\<close>

text \<open>A row of the loaded CSV: the 42 features and the label.\<close>

type_synonym csv_row = "real list \<times> string"

definition MIN_SAMPLES_PER_CLASS :: nat where
  "MIN_SAMPLES_PER_CLASS = 10"

text \<open>
  \<^verbatim>\<open>df["label"].value_counts()\<close>: each label with its number of rows. (pandas lists
  them by falling count; the trainer reads the counts and the set of labels only.)
\<close>

definition value_counts :: "string list \<Rightarrow> (string \<times> nat) list" where
  "value_counts labels = map (\<lambda>l. (l, count_list labels l)) (remdups labels)"

text \<open>The minimum of a series; of an empty one it is NaN, here \<open>None\<close>.\<close>

definition series_min :: "nat list \<Rightarrow> nat option" where
  "series_min xs = (if xs = [] then None else Some (Min (set xs)))"

record trainer =
  tr_class_counts :: "(string \<times> nat) list"
  tr_rare_classes :: "string list"
  tr_df :: "csv_row list"
  tr_cv_folds :: nat

text \<open>
  The script up to the cross-validation call: the counts are taken from the raw frame,
  the rare classes are dropped from the frame, and the fold count is chosen from
  \<^verbatim>\<open>class_counts\<close>. A comparison with NaN is false.
\<close>

definition train_model :: "csv_row list \<Rightarrow> trainer" where
  "train_model df0 =
     (let class_counts = value_counts (map snd df0);
          rare_classes = map fst (filter (\<lambda>(l, c). c < MIN_SAMPLES_PER_CLASS) class_counts);
          df = (if rare_classes \<noteq> [] then filter (\<lambda>(features, l). l \<notin> set rare_classes) df0 else df0);
          cv_folds = (case series_min (map snd class_counts) of
                        None \<Rightarrow> 5
                      | Some m \<Rightarrow> if m < 5 then max 2 m else 5)
      in \<lparr>tr_class_counts = class_counts, tr_rare_classes = rare_classes, tr_df = df,
          tr_cv_folds = cv_folds\<rparr>)"

section \<open>Concrete inputs\<close>

text \<open>Inputs on which the definitions above are run below.\<close>

definition example_hand :: "landmark list" where
  "example_hand = map (\<lambda>i. \<lparr>lm_x = real i / 40, lm_y = 1 - real i / 40, lm_z = 0\<rparr>) [0..<21]"

definition other_hand :: "landmark list" where
  "other_hand = map (\<lambda>i. \<lparr>lm_x = 1 / 2, lm_y = real i / 21, lm_z = 0\<rparr>) [0..<21]"

definition example_image :: image where
  "example_image = [[(1, 2, 3), (4, 5, 6)]]"

definition example_request :: request where
  "example_request = \<lparr>files = [''frame'' \<mapsto> [255, 216, 255]]\<rparr>"

definition empty_request :: request where
  "empty_request = \<lparr>files = Map.empty\<rparr>"

text \<open>Two decimals of a probability, rounding the third half up.\<close>

definition two_decimals :: "real \<Rightarrow> string" where
  "two_decimals p =
     (let n = nat \<lfloor>p * 100 + 1 / 2\<rfloor>
      in str_nat (n div 100) @ ''.'' @ str_nat (n div 10 mod 10) @ str_nat (n mod 10))"

text \<open>
  An environment with a three-class model: the decoder accepts any upload of three bytes or more, the
  detector finds the given hands, the classifier answers as given.
\<close>

definition example_env :: "landmark list list \<Rightarrow> py_exception + real list list \<Rightarrow> env" where
  "example_env found answer =
     \<lparr>decode_image = (\<lambda>bs. if length bs < 3 then None else Some example_image),
      mp_detect = (\<lambda>img. found),
      model_predict_proba = (\<lambda>df. answer),
      model_classes = [''A'', ''B'', ''C''],
      np_argsort = stable_argsort,
      format_2f = two_decimals\<rparr>"

text \<open>The same with a four-class model.\<close>

definition four_class_env :: "landmark list list \<Rightarrow> py_exception + real list list \<Rightarrow> env" where
  "four_class_env found answer =
     (example_env found answer)\<lparr>model_classes := [''A'', ''B'', ''C'', ''D'']\<rparr>"

text \<open>Environments for the accepted, the low-confidence, the tied, the two-hand and the failing case.\<close>

definition accepting_env :: env where
  "accepting_env = example_env [example_hand] (Inr [[1 / 10, 7 / 10, 1 / 5]])"

definition doubtful_env :: env where
  "doubtful_env = four_class_env [example_hand] (Inr [[1 / 4, 1 / 4, 1 / 4, 1 / 4]])"

definition tied_env :: env where
  "tied_env = example_env [example_hand] (Inr [[2 / 5, 2 / 5, 1 / 5]])"

definition two_hands_env :: env where
  "two_hands_env = example_env [example_hand, other_hand] (Inr [[1 / 10, 7 / 10, 1 / 5]])"

definition failing_env :: env where
  "failing_env = example_env [example_hand] (Inl (OtherException ''model is not fitted''))"

text \<open>A training file with twelve rows of \<open>A\<close>, eleven of \<open>B\<close> and three of \<open>C\<close>.\<close>

definition example_csv :: "csv_row list" where
  "example_csv =
     replicate 12 (replicate 42 0, ''A'') @ replicate 11 (replicate 42 0, ''B'')
       @ replicate 3 (replicate 42 0, ''C'')"

section \<open>Lemmas on the primitives\<close>

lemma str_nat_digit: "n < 10 \<Longrightarrow> str_nat n = [digit_char n]"
  by (simp add: str_nat.simps)

lemma str_nat_two_digits:
  "10 \<le> n \<Longrightarrow> n < 100 \<Longrightarrow> str_nat n = [digit_char (n div 10), digit_char (n mod 10)]"
  by (subst str_nat.simps) (simp add: str_nat_digit)

lemma fold_append_concat:
  "fold (\<lambda>x acc. acc @ f x) xs acc0 = acc0 @ concat (map f xs)"
  by (induction xs arbitrary: acc0) simp_all

lemma flatten_coords_concat:
  "flatten_coords h = concat (map (\<lambda>lm. [lm_x lm, lm_y lm]) h)"
  unfolding flatten_coords_def by (simp add: fold_append_concat)

lemma length_flatten_coords: "length (flatten_coords h) = 2 * length h"
  unfolding flatten_coords_concat by (induction h) simp_all

lemma nth_flatten_coords:
  "i < length h \<Longrightarrow>
     flatten_coords h ! (2 * i) = lm_x (h ! i) \<and> flatten_coords h ! (2 * i + 1) = lm_y (h ! i)"
  unfolding flatten_coords_concat
proof (induction h arbitrary: i)
  case Nil
  then show ?case by simp
next
  case (Cons lm h)
  then show ?case by (cases i) simp_all
qed

lemma np_argmax_Inr:
  assumes "ps \<noteq> []"
  shows "\<exists>i. np_argmax ps = Inr i \<and> i < length ps \<and> ps ! i = Max (set ps)
             \<and> (\<forall>j<i. ps ! j \<noteq> Max (set ps))"
proof -
  let ?P = "\<lambda>p. p \<noteq> Max (set ps)"
  let ?i = "length (takeWhile ?P ps)"
  have mem: "Max (set ps) \<in> set ps" using assms by simp
  have "takeWhile ?P ps \<noteq> ps" using mem by auto
  then have "?i \<noteq> length ps" by (metis takeWhile_eq_take take_all order_refl)
  then have lt: "?i < length ps" using length_takeWhile_le[of ?P ps] by linarith
  have "\<not> ?P (ps ! ?i)" using lt by (rule nth_length_takeWhile)
  moreover have "?P (ps ! j)" if "j < ?i" for j
  proof -
    have "takeWhile ?P ps ! j \<in> set (takeWhile ?P ps)" using that by simp
    then have "?P (takeWhile ?P ps ! j)" by (rule set_takeWhileD[THEN conjunct2])
    then show ?thesis using that by (simp add: takeWhile_nth)
  qed
  ultimately show ?thesis using lt assms by (simp add: np_argmax_def)
qed

lemma is_argsort_length: "is_argsort ps idx \<Longrightarrow> length idx = length ps"
  unfolding is_argsort_def by (metis length_sort length_upt diff_zero)

lemma is_argsort_set: "is_argsort ps idx \<Longrightarrow> set idx = {0..<length ps}"
  unfolding is_argsort_def by (metis set_sort set_upt)

lemma stable_argsort_ok: "is_argsort ps (stable_argsort ps)"
proof -
  let ?idx = "sort_key (\<lambda>i. ps ! i) [0..<length ps]"
  have "sort ?idx = [0..<length ps]"
    by (rule sorted_distinct_set_unique) simp_all
  moreover have "sorted (map (\<lambda>i. ps ! i) ?idx)"
    by (rule sorted_sort_key)
  ultimately show ?thesis unfolding is_argsort_def stable_argsort_def by simp
qed

lemma sorted_le_last: "sorted xs \<Longrightarrow> v \<in> set xs \<Longrightarrow> v \<le> last (xs :: real list)"
  by (induction xs) auto

lemma last_argsort_Max:
  assumes "is_argsort ps idx" "ps \<noteq> []"
  shows "ps ! last idx = Max (set ps)"
proof -
  let ?vs = "map (\<lambda>i. ps ! i) idx"
  have ne: "idx \<noteq> []" using assms is_argsort_length by fastforce
  have srt: "sorted ?vs" using assms by (simp add: is_argsort_def)
  have img: "set ?vs = set ps"
    using is_argsort_set[OF assms(1)] by (auto simp: in_set_conv_nth)
  have le: "v \<le> last ?vs" if "v \<in> set ps" for v
    using sorted_le_last[OF srt] that img by blast
  have "last ?vs \<in> set ps" using ne img last_in_set[of ?vs] by simp
  then have "Max (set ps) = last ?vs" using le by (intro Max_eqI) simp_all
  then show ?thesis using ne by (simp add: last_map)
qed

lemma comprehension_Inr:
  "(\<And>x. x \<in> set xs \<Longrightarrow> f x = Inr (g x)) \<Longrightarrow> comprehension f xs = Inr (map g xs)"
  by (induction xs) simp_all

lemma set_reversed_last3: "set (reversed (last3 xs)) \<subseteq> set xs"
  unfolding reversed_def last3_def by (simp add: set_drop_subset)

lemma length_reversed_last3: "length (reversed (last3 xs)) = min 3 (length xs)"
  unfolding reversed_def last3_def by simp

lemma sorted_reversed_last3:
  "sorted (map f xs) \<Longrightarrow> sorted (rev (map f (reversed (last3 xs))))"
  unfolding reversed_def last3_def by (simp add: rev_map drop_map[symmetric] sorted_wrt_drop)

lemma hd_reversed_last3: "xs \<noteq> [] \<Longrightarrow> hd (reversed (last3 xs)) = last xs"
  unfolding reversed_def last3_def by (simp add: hd_rev)

section \<open>Lemmas on the encoder and the views\<close>

lemma feature_names_eq:
  "feature_names =
     [''x0'', ''y0'', ''x1'', ''y1'', ''x2'', ''y2'', ''x3'', ''y3'', ''x4'', ''y4'',
      ''x5'', ''y5'', ''x6'', ''y6'', ''x7'', ''y7'', ''x8'', ''y8'', ''x9'', ''y9'',
      ''x10'', ''y10'', ''x11'', ''y11'', ''x12'', ''y12'', ''x13'', ''y13'', ''x14'', ''y14'',
      ''x15'', ''y15'', ''x16'', ''y16'', ''x17'', ''y17'', ''x18'', ''y18'', ''x19'', ''y19'',
      ''x20'', ''y20'']"
  by code_simp

lemma length_feature_names: "length feature_names = 42"
  by (simp add: feature_names_eq)

lemma header_feature_names: "header = feature_names @ [''label'']"
  by (simp add: header_def feature_names_def)

lemma cv2_imdecode_nonempty [simp]:
  "buf \<noteq> [] \<Longrightarrow> cv2_imdecode env buf = Inr (decode_image env buf)"
  by (simp add: cv2_imdecode_def)

lemma hands_process_first:
  "mp_detect env img_rgb = h # hs \<Longrightarrow> hands_process env img_rgb = Some [h]"
  by (simp add: hands_process_def max_num_hands_def)

lemma hands_process_none:
  "mp_detect env img_rgb = [] \<Longrightarrow> hands_process env img_rgb = None"
  by (simp add: hands_process_def)

lemma extract_landmarks_hand:
  assumes "mp_detect env (cvtColor_BGR2RGB img) = h # hs" "length h = 21"
  shows "extract_landmarks env img =
           Inr (Some \<lparr>df_columns = feature_names, df_rows = [flatten_coords h]\<rparr>)"
  using assms
  by (simp add: extract_landmarks_def hands_process_first pd_DataFrame_def
        length_flatten_coords length_feature_names)

lemma extract_landmarks_none:
  "mp_detect env (cvtColor_BGR2RGB img) = [] \<Longrightarrow> extract_landmarks env img = Inr None"
  by (simp add: extract_landmarks_def hands_process_none)

lemma predict_hand:
  assumes "files req ''frame'' = Some bs" "cv2_imdecode env bs = Inr (Some img)"
    "mp_detect env (cvtColor_BGR2RGB img) = h # hs" "length h = 21"
  shows "predict env req =
           (case predict_try env \<lparr>df_columns = feature_names, df_rows = [flatten_coords h]\<rparr> of
              Inr resp \<Rightarrow> resp
            | Inl e \<Rightarrow> Response 500 (JObj [(''error'', JStr (str_of_exception e))]),
            [\<lparr>df_columns = feature_names, df_rows = [flatten_coords h]\<rparr>])"
  using assms by (simp add: predict_def extract_landmarks_hand split: sum.splits)


lemma str_contains_sublist: "str_contains sub s \<longleftrightarrow> sublist sub s"
  by (induction s) (simp_all add: sublist_Cons_right)

lemma str_contains_iff: "str_contains sub s \<longleftrightarrow> (\<exists>pre suf. s = pre @ sub @ suf)"
  by (simp add: str_contains_sublist sublist_def)


lemma example_request_frame: "files example_request ''frame'' = Some [255, 216, 255]"
  by (simp add: example_request_def)

lemma length_example_hand: "length example_hand = 21"
  by (simp add: example_hand_def)

text \<open>The rows of the training file hold the same values, in the same order, as the serve-time row.\<close>

lemma dataset_row_features:
  "dataset_row h label = map Num (flatten_coords h) @ [Text label]"
proof -
  have "fold (\<lambda>lm row. row @ [Num (lm_x lm), Num (lm_y lm)]) h acc
          = acc @ map Num (concat (map (\<lambda>lm. [lm_x lm, lm_y lm]) h))" for acc
    by (induction h arbitrary: acc) simp_all
  then show ?thesis by (simp add: dataset_row_def flatten_coords_concat)
qed

section \<open>The feature vector\<close>

text \<open>
  Claim C2. For every detected hand of 21 landmarks, whatever the image, the encoder
  returns a frame of one row of exactly 42 values under the columns
  \<open>x0, y0, ..., x20, y20\<close>: value \<open>2 i\<close> is \<open>lm.x\<close> and value \<open>2 i + 1\<close> is
  \<open>lm.y\<close> of landmark \<open>i\<close>. The header the dataset builder writes is these columns
  followed by \<open>label\<close>.
\<close>

theorem feature_vector_layout:
  assumes "mp_detect env (cvtColor_BGR2RGB img) = h # hs" and "length h = 21"
  shows "\<exists>df row. extract_landmarks env img = Inr (Some df)
           \<and> df_columns df =
               [''x0'', ''y0'', ''x1'', ''y1'', ''x2'', ''y2'', ''x3'', ''y3'', ''x4'', ''y4'',
                ''x5'', ''y5'', ''x6'', ''y6'', ''x7'', ''y7'', ''x8'', ''y8'', ''x9'', ''y9'',
                ''x10'', ''y10'', ''x11'', ''y11'', ''x12'', ''y12'', ''x13'', ''y13'',
                ''x14'', ''y14'', ''x15'', ''y15'', ''x16'', ''y16'', ''x17'', ''y17'',
                ''x18'', ''y18'', ''x19'', ''y19'', ''x20'', ''y20'']
           \<and> df_rows df = [row]
           \<and> length row = 42
           \<and> (\<forall>i<21. row ! (2 * i) = lm_x (h ! i) \<and> row ! (2 * i + 1) = lm_y (h ! i))
           \<and> header = df_columns df @ [''label'']"
proof -
  let ?df = "\<lparr>df_columns = feature_names, df_rows = [flatten_coords h]\<rparr>"
  have "extract_landmarks env img = Inr (Some ?df)"
    by (rule extract_landmarks_hand[OF assms])
  moreover have "df_columns ?df =
               [''x0'', ''y0'', ''x1'', ''y1'', ''x2'', ''y2'', ''x3'', ''y3'', ''x4'', ''y4'',
                ''x5'', ''y5'', ''x6'', ''y6'', ''x7'', ''y7'', ''x8'', ''y8'', ''x9'', ''y9'',
                ''x10'', ''y10'', ''x11'', ''y11'', ''x12'', ''y12'', ''x13'', ''y13'',
                ''x14'', ''y14'', ''x15'', ''y15'', ''x16'', ''y16'', ''x17'', ''y17'',
                ''x18'', ''y18'', ''x19'', ''y19'', ''x20'', ''y20'']"
    by (simp only: feature_names_eq dataframe.simps)
  moreover have "length (flatten_coords h) = 42"
    using assms(2) by (simp add: length_flatten_coords)
  moreover have "\<forall>i<21. flatten_coords h ! (2 * i) = lm_x (h ! i)
                      \<and> flatten_coords h ! (2 * i + 1) = lm_y (h ! i)"
    using assms(2) nth_flatten_coords[of _ h] by simp
  moreover have "header = df_columns ?df @ [''label'']"
    by (simp add: header_feature_names)
  ultimately show ?thesis by (intro exI[of _ ?df] exI[of _ "flatten_coords h"]) simp
qed

theorem feature_vector_layout_witness:
  "mp_detect (example_env [example_hand] (Inr [])) (cvtColor_BGR2RGB example_image) = example_hand # []
   \<and> length example_hand = 21
   \<and> (\<exists>df row. extract_landmarks (example_env [example_hand] (Inr [])) example_image = Inr (Some df)
           \<and> df_rows df = [row] \<and> length row = 42
           \<and> row ! 2 = 1 / 40 \<and> row ! 3 = 39 / 40
           \<and> header = df_columns df @ [''label''])"
proof -
  have d: "mp_detect (example_env [example_hand] (Inr [])) (cvtColor_BGR2RGB example_image)
             = example_hand # []"
    by (simp add: example_env_def)
  have l: "length example_hand = 21" by (simp add: example_hand_def)
  have v: "lm_x (example_hand ! 1) = 1 / 40 \<and> lm_y (example_hand ! 1) = 39 / 40"
    by (simp add: example_hand_def)
  from feature_vector_layout[OF d l] obtain df row where
    *: "extract_landmarks (example_env [example_hand] (Inr [])) example_image = Inr (Some df)"
       "df_rows df = [row]" "length row = 42"
       "\<forall>i<21. row ! (2 * i) = lm_x (example_hand ! i) \<and> row ! (2 * i + 1) = lm_y (example_hand ! i)"
       "header = df_columns df @ [''label'']"
    by blast
  have "row ! 2 = 1 / 40 \<and> row ! 3 = 39 / 40"
    using *(4)[rule_format, of 1] v by simp
  with d l * show ?thesis by blast
qed

text \<open>
  Claim C9. The encoding depends on the landmark set alone: whenever the detector reports
  the same first hand, in any two images and under any two environments, the encoder
  returns the same frame, one row of 42 values.
\<close>

theorem encoding_deterministic:
  assumes "mp_detect env1 (cvtColor_BGR2RGB img1) = h # hs1"
    and "mp_detect env2 (cvtColor_BGR2RGB img2) = h # hs2"
    and "length h = 21"
  shows "extract_landmarks env1 img1 = extract_landmarks env2 img2
         \<and> (\<exists>df row. extract_landmarks env1 img1 = Inr (Some df) \<and> df_rows df = [row] \<and> length row = 42)"
  using assms by (simp add: extract_landmarks_hand length_flatten_coords)

theorem encoding_deterministic_witness:
  "mp_detect (example_env [example_hand] (Inr [])) (cvtColor_BGR2RGB example_image)
     = example_hand # []
   \<and> mp_detect (example_env [example_hand, other_hand] (Inl (OtherException ''down'')))
        (cvtColor_BGR2RGB [[(7, 8, 9)]]) = example_hand # [other_hand]
   \<and> length example_hand = 21
   \<and> extract_landmarks (example_env [example_hand] (Inr [])) example_image
       = extract_landmarks (example_env [example_hand, other_hand] (Inl (OtherException ''down'')))
           [[(7, 8, 9)]]"
proof -
  have d1: "mp_detect (example_env [example_hand] (Inr [])) (cvtColor_BGR2RGB example_image)
              = example_hand # []"
    by (simp add: example_env_def)
  have d2: "mp_detect (example_env [example_hand, other_hand] (Inl (OtherException ''down'')))
              (cvtColor_BGR2RGB [[(7, 8, 9)]]) = example_hand # [other_hand]"
    by (simp add: example_env_def)
  have l: "length example_hand = 21" by (simp add: example_hand_def)
  show ?thesis using encoding_deterministic[OF d1 d2 l] d1 d2 l by blast
qed



section \<open>The answers of \<^verbatim>\<open>POST /predict\<close>\<close>

text \<open>
  The answers given before the classifier is reached: a request without the field
  \<open>frame\<close>, a non-empty upload that does not decode, and an image in which no hand is
  detected. The classifier is called in none of them.
\<close>

lemma predict_early_answers:
  "(files req ''frame'' = None \<longrightarrow>
      predict env req = (Response 400 (JObj [(''error'', JStr ''missing frame'')]), []))
   \<and> (files req ''frame'' = Some bs \<and> cv2_imdecode env bs = Inr None \<longrightarrow>
      predict env req = (Response 400 (JObj [(''error'', JStr ''invalid image'')]), []))
   \<and> (files req ''frame'' = Some bs \<and> cv2_imdecode env bs = Inr (Some img)
        \<and> mp_detect env (cvtColor_BGR2RGB img) = [] \<longrightarrow>
      predict env req =
        (Response 200 (JObj [(''prediction'', JNull), (''message'', JStr ''no hand detected'')]), []))"
  by (simp add: predict_def extract_landmarks_none)

lemma predict_undecodable_example:
  "predict (example_env [example_hand] (Inr [])) \<lparr>files = [''frame'' \<mapsto> [71, 73]]\<rparr>
     = (Response 400 (JObj [(''error'', JStr ''invalid image'')]), [])"
  by (simp add: predict_def example_env_def)

text \<open>
  Claim C3. The claim asks for status 400 and the body \<open>{"error": "invalid image"}\<close>
  whenever the uploaded bytes do not decode. For an upload of zero bytes the view gives
  no such answer, under any environment: the decoder raises on the empty buffer before
  the \<^verbatim>\<open>try\<close> block is entered, the exception leaves the view, and the classifier is
  not called.
\<close>

theorem empty_upload_unhandled:
  "predict env \<lparr>files = [''frame'' \<mapsto> []]\<rparr>
     = (Unhandled (CvError ''(-215:Assertion failed) !buf.empty() in function imdecode_''), [])"
  by (simp add: predict_def cv2_imdecode_def)

subsection \<open>Classification\<close>

lemma top_predictions_ok:
  assumes "is_argsort probs (np_argsort env probs)"
    and "length (model_classes env) = length probs"
  shows "top_predictions env probs =
           Inr (map (\<lambda>i. JObj [(''label'', JStr (model_classes env ! i)),
                               (''confidence'', JNum (probs ! i))])
                  (reversed (last3 (np_argsort env probs))))"
  unfolding top_predictions_def
proof (rule comprehension_Inr)
  fix i assume "i \<in> set (reversed (last3 (np_argsort env probs)))"
  then have "i \<in> set (np_argsort env probs)"
    using set_reversed_last3[of "np_argsort env probs"] by (rule subsetD[rotated])
  then have "i < length probs" using is_argsort_set[OF assms(1)] by simp
  then show "(case getitem (model_classes env) i of
                Inl e \<Rightarrow> Inl e
              | Inr label \<Rightarrow>
                  (case getitem probs i of
                     Inl e \<Rightarrow> Inl e
                   | Inr p \<Rightarrow> Inr (JObj [(''label'', JStr label), (''confidence'', JNum p)])))
             = Inr (JObj [(''label'', JStr (model_classes env ! i)),
                          (''confidence'', JNum (probs ! i))])"
    unfolding getitem_def assms(2) by simp
qed

lemma predict_try_ok:
  assumes "model_predict_proba env df = Inr (probs # rest)" and "probs \<noteq> []"
    and "length (model_classes env) = length probs"
    and "is_argsort probs (np_argsort env probs)"
    and "np_argmax probs = Inr i"
  shows "predict_try env df =
           Inr (Response 200 (JObj
             (if Max (set probs) < 3 / 10 then
                [(''prediction'', JNull),
                 (''message'', JStr (''low confidence ('' @ format_2f env (Max (set probs)) @ '')'')),
                 (''top_predictions'', JArr (map (\<lambda>i. JObj [(''label'', JStr (model_classes env ! i)),
                               (''confidence'', JNum (probs ! i))])
                  (reversed (last3 (np_argsort env probs)))))]
              else
                [(''prediction'', JStr (model_classes env ! i)),
                 (''confidence'', JNum (Max (set probs))),
                 (''top_predictions'', JArr (map (\<lambda>i. JObj [(''label'', JStr (model_classes env ! i)),
                               (''confidence'', JNum (probs ! i))])
                  (reversed (last3 (np_argsort env probs)))))])))"
proof -
  from np_argmax_Inr[OF assms(2)] assms(5)
  have i: "i < length probs" "probs ! i = Max (set probs)" by auto
  have t: "top_predictions env probs =
           Inr (map (\<lambda>i. JObj [(''label'', JStr (model_classes env ! i)),
                               (''confidence'', JNum (probs ! i))])
                  (reversed (last3 (np_argsort env probs))))"
    by (rule top_predictions_ok[OF assms(4) assms(3)])
  have g0: "getitem (probs # rest) 0 = Inr probs" by (simp add: getitem_def)
  have g1: "getitem (model_classes env) i = Inr (model_classes env ! i)"
    using i(1) assms(3) by (simp add: getitem_def)
  have g2: "getitem probs i = Inr (Max (set probs))"
    using i by (simp add: getitem_def)
  show ?thesis
  proof (cases "Max (set probs) < 3 / 10")
    case True
    then show ?thesis
      by (simp only: predict_try_def assms(1) assms(5) sum.case g0 g1 g2 t
            confidence_threshold_def if_True)
  next
    case False
    then show ?thesis
      by (simp only: predict_try_def assms(1) assms(5) sum.case g0 g1 g2 t
            confidence_threshold_def if_False)
  qed
qed

lemma top_predictions_mp_detect:
  "top_predictions (env\<lparr>mp_detect := d\<rparr>) probs = top_predictions env probs"
  by (simp add: top_predictions_def)

lemma predict_try_mp_detect:
  "predict_try (env\<lparr>mp_detect := d\<rparr>) df = predict_try env df"
  by (simp add: predict_try_def top_predictions_mp_detect cong: sum.case_cong if_cong)

lemma predict_try_Response:
  "predict_try env df = Inr r \<Longrightarrow> \<exists>st b. r = Response st b"
  unfolding predict_try_def by (auto split: sum.splits if_splits)

lemma predict_try_raise:
  "model_predict_proba env df = Inl e \<Longrightarrow> predict_try env df = Inl e"
  by (simp add: predict_try_def)

lemma predict_classified:
  assumes "files req ''frame'' = Some bs" and "cv2_imdecode env bs = Inr (Some img)"
    and "mp_detect env (cvtColor_BGR2RGB img) = h # hs" and "length h = 21"
    and "model_predict_proba env \<lparr>df_columns = feature_names, df_rows = [flatten_coords h]\<rparr>
           = Inr (probs # rest)"
    and "probs \<noteq> []" and "length (model_classes env) = length probs"
    and "is_argsort probs (np_argsort env probs)"
    and "np_argmax probs = Inr i"
  shows "fst (predict env req) =
           Response 200 (JObj
             (if Max (set probs) < 3 / 10 then
                [(''prediction'', JNull),
                 (''message'', JStr (''low confidence ('' @ format_2f env (Max (set probs)) @ '')'')),
                 (''top_predictions'', JArr (map (\<lambda>i. JObj [(''label'', JStr (model_classes env ! i)),
                               (''confidence'', JNum (probs ! i))])
                  (reversed (last3 (np_argsort env probs)))))]
              else
                [(''prediction'', JStr (model_classes env ! i)),
                 (''confidence'', JNum (Max (set probs))),
                 (''top_predictions'', JArr (map (\<lambda>i. JObj [(''label'', JStr (model_classes env ! i)),
                               (''confidence'', JNum (probs ! i))])
                  (reversed (last3 (np_argsort env probs)))))]))"
  by (simp only: predict_hand[OF assms(1-4)] predict_try_ok[OF assms(5-9)] sum.case fst_conv)

lemma list3: "length xs = 3 \<Longrightarrow> \<exists>a b c. xs = [a, b, c]"
  by (simp add: numeral_3_eq_3 length_Suc_conv) blast

lemma top3_shape:
  assumes "is_argsort probs idx" and "3 \<le> length probs"
  shows "\<exists>a b c. reversed (last3 idx) = [a, b, c] \<and> probs ! c \<le> probs ! b \<and> probs ! b \<le> probs ! a
           \<and> probs ! a = Max (set probs) \<and> a < length probs"
proof -
  have len: "length idx = length probs" by (rule is_argsort_length[OF assms(1)])
  then have "length (reversed (last3 idx)) = 3"
    using assms(2) by (simp add: length_reversed_last3)
  then obtain a b c where abc: "reversed (last3 idx) = [a, b, c]" using list3 by blast
  have ne: "idx \<noteq> []" "probs \<noteq> []" using len assms(2) by auto
  have "sorted (map (\<lambda>i. probs ! i) idx)" using assms(1) by (simp add: is_argsort_def)
  then have "sorted (rev (map (\<lambda>i. probs ! i) (reversed (last3 idx))))"
    by (rule sorted_reversed_last3)
  then have ord: "probs ! c \<le> probs ! b \<and> probs ! b \<le> probs ! a"
    unfolding abc by simp
  have "hd (reversed (last3 idx)) = last idx" by (rule hd_reversed_last3[OF ne(1)])
  then have a: "a = last idx" unfolding abc by simp
  have mx: "probs ! a = Max (set probs)"
    unfolding a by (rule last_argsort_Max[OF assms(1) ne(2)])
  have "a \<in> set idx" unfolding a using ne(1) by simp
  then have "a < length probs" using is_argsort_set[OF assms(1)] by simp
  with abc ord mx show ?thesis by blast
qed

lemma stable_argsort_tied: "stable_argsort [2 / 5, 2 / 5, 1 / 5] = [2, 0, 1]"
  by (simp add: stable_argsort_def upt_conv_Cons)

lemma stable_argsort_accepting: "stable_argsort [1 / 10, 7 / 10, 1 / 5] = [0, 2, 1]"
  by (simp add: stable_argsort_def upt_conv_Cons)

lemma np_argmax_tied: "np_argmax [2 / 5, 2 / 5, 1 / 5] = Inr 0"
  by (simp add: np_argmax_def)

lemma np_argmax_accepting: "np_argmax [1 / 10, 7 / 10, 1 / 5] = Inr 1"
  by (simp add: np_argmax_def)

lemma np_argmax_doubtful: "np_argmax [1 / 4, 1 / 4, 1 / 4, 1 / 4] = Inr 0"
  by (simp add: np_argmax_def)

text \<open>
  Claim C1. When a hand is detected and the classifier returns one probability per class,
  the threshold is a hard cutoff on the top probability, whichever class wins: at three
  tenths or above the answer has status 200, the label at the first index of the maximum
  as \<open>prediction\<close> and the top probability as \<open>confidence\<close>; strictly below, the
  answer has status 200, \<open>prediction\<close> null and the message
  \<open>low confidence (p)\<close> with the top probability formatted to two decimals.
\<close>

theorem confidence_threshold_cutoff:
  assumes "files req ''frame'' = Some bs" and "cv2_imdecode env bs = Inr (Some img)"
    and "mp_detect env (cvtColor_BGR2RGB img) = h # hs" and "length h = 21"
    and "model_predict_proba env \<lparr>df_columns = feature_names, df_rows = [flatten_coords h]\<rparr>
           = Inr (probs # rest)"
    and "probs \<noteq> []" and "length (model_classes env) = length probs"
    and "is_argsort probs (np_argsort env probs)"
  shows "(3 / 10 \<le> Max (set probs) \<longrightarrow>
            (\<exists>i<length probs. np_argmax probs = Inr i \<and> probs ! i = Max (set probs)
               \<and> status_of (fst (predict env req)) = Some 200
               \<and> json_get ''prediction'' (body_of (fst (predict env req)))
                   = Some (JStr (model_classes env ! i))
               \<and> json_get ''confidence'' (body_of (fst (predict env req)))
                   = Some (JNum (Max (set probs)))))
         \<and> (Max (set probs) < 3 / 10 \<longrightarrow>
              status_of (fst (predict env req)) = Some 200
              \<and> json_get ''prediction'' (body_of (fst (predict env req))) = Some JNull
              \<and> json_get ''message'' (body_of (fst (predict env req)))
                  = Some (JStr (''low confidence ('' @ format_2f env (Max (set probs)) @ '')'')))"
proof -
  from np_argmax_Inr[OF assms(6)] obtain i where
    i: "np_argmax probs = Inr i" "i < length probs" "probs ! i = Max (set probs)" by blast
  note p = predict_classified[OF assms i(1)]
  have hi: "status_of (fst (predict env req)) = Some 200
            \<and> json_get ''prediction'' (body_of (fst (predict env req)))
                = Some (JStr (model_classes env ! i))
            \<and> json_get ''confidence'' (body_of (fst (predict env req)))
                = Some (JNum (Max (set probs)))"
    if "3 / 10 \<le> Max (set probs)"
    unfolding p using that by simp
  have lo: "status_of (fst (predict env req)) = Some 200
              \<and> json_get ''prediction'' (body_of (fst (predict env req))) = Some JNull
              \<and> json_get ''message'' (body_of (fst (predict env req)))
                  = Some (JStr (''low confidence ('' @ format_2f env (Max (set probs)) @ '')''))"
    if "Max (set probs) < 3 / 10"
    unfolding p using that by simp
  show ?thesis using hi lo i by blast
qed

theorem confidence_threshold_cutoff_witness:
  "3 / 10 \<le> Max (set [1 / 10, 7 / 10, 1 / 5 :: real])
   \<and> json_get ''prediction'' (body_of (fst (predict accepting_env example_request))) = Some (JStr ''B'')
   \<and> json_get ''confidence'' (body_of (fst (predict accepting_env example_request)))
       = Some (JNum (7 / 10))
   \<and> Max (set [1 / 4, 1 / 4, 1 / 4, 1 / 4 :: real]) < 3 / 10
   \<and> json_get ''prediction'' (body_of (fst (predict doubtful_env example_request))) = Some JNull
   \<and> json_get ''message'' (body_of (fst (predict doubtful_env example_request)))
       = Some (JStr ''low confidence (0.25)'')"
proof -
  have a: "cv2_imdecode accepting_env [255, 216, 255] = Inr (Some example_image)"
    "mp_detect accepting_env (cvtColor_BGR2RGB example_image) = example_hand # []"
    "model_predict_proba accepting_env
        \<lparr>df_columns = feature_names, df_rows = [flatten_coords example_hand]\<rparr>
      = Inr ([1 / 10, 7 / 10, 1 / 5] # [])"
    "[1 / 10, 7 / 10, 1 / 5 :: real] \<noteq> []"
    "length (model_classes accepting_env) = length [1 / 10, 7 / 10, 1 / 5 :: real]"
    "is_argsort [1 / 10, 7 / 10, 1 / 5] (np_argsort accepting_env [1 / 10, 7 / 10, 1 / 5])"
    by (simp_all add: accepting_env_def example_env_def stable_argsort_ok)
  have d: "cv2_imdecode doubtful_env [255, 216, 255] = Inr (Some example_image)"
    "mp_detect doubtful_env (cvtColor_BGR2RGB example_image) = example_hand # []"
    "model_predict_proba doubtful_env
        \<lparr>df_columns = feature_names, df_rows = [flatten_coords example_hand]\<rparr>
      = Inr ([1 / 4, 1 / 4, 1 / 4, 1 / 4] # [])"
    "[1 / 4, 1 / 4, 1 / 4, 1 / 4 :: real] \<noteq> []"
    "length (model_classes doubtful_env) = length [1 / 4, 1 / 4, 1 / 4, 1 / 4 :: real]"
    "is_argsort [1 / 4, 1 / 4, 1 / 4, 1 / 4] (np_argsort doubtful_env [1 / 4, 1 / 4, 1 / 4, 1 / 4])"
    by (simp_all add: doubtful_env_def four_class_env_def example_env_def stable_argsort_ok)
  have ma: "Max (set [1 / 10, 7 / 10, 1 / 5 :: real]) = 7 / 10" by simp
  have md: "Max (set [1 / 4, 1 / 4, 1 / 4, 1 / 4 :: real]) = 1 / 4" by simp
  have ca: "model_classes accepting_env ! 1 = ''B''"
    by (simp add: accepting_env_def example_env_def)
  have fd: "format_2f doubtful_env (1 / 4) = ''0.25''"
    by (simp add: doubtful_env_def four_class_env_def example_env_def two_decimals_def
          str_nat.simps digit_char_def)
  note ta = confidence_threshold_cutoff[OF example_request_frame a(1) a(2) length_example_hand
      a(3) a(4) a(5) a(6), unfolded ma np_argmax_accepting]
  note td = confidence_threshold_cutoff[OF example_request_frame d(1) d(2) length_example_hand
      d(3) d(4) d(5) d(6), unfolded md fd]
  have 1: "json_get ''prediction'' (body_of (fst (predict accepting_env example_request)))
             = Some (JStr ''B'')
           \<and> json_get ''confidence'' (body_of (fst (predict accepting_env example_request)))
             = Some (JNum (7 / 10))"
    using ta ca by auto
  have 2: "json_get ''prediction'' (body_of (fst (predict doubtful_env example_request))) = Some JNull
           \<and> json_get ''message'' (body_of (fst (predict doubtful_env example_request)))
               = Some (JStr ''low confidence (0.25)'')"
    using td by simp
  show ?thesis unfolding ma md using 1 2 by simp
qed

text \<open>
  Claim C6, as stated, fails when two classes tie for the top probability:
  \<^verbatim>\<open>np.argmax\<close> names the first of them as the best label, while the reversed tail of
  \<^verbatim>\<open>np.argsort\<close> may start with the other. With the probabilities
  \<open>[0.4, 0.4, 0.2]\<close> and an argsort that keeps ties in index order the prediction is
  \<open>A\<close> and the list starts with \<open>B\<close>.
\<close>

theorem top_predictions_tie_counterexample:
  "json_get ''prediction'' (body_of (fst (predict tied_env example_request))) = Some (JStr ''A'')
   \<and> json_get ''top_predictions'' (body_of (fst (predict tied_env example_request)))
       = Some (JArr [JObj [(''label'', JStr ''B''), (''confidence'', JNum (2 / 5))],
                     JObj [(''label'', JStr ''A''), (''confidence'', JNum (2 / 5))],
                     JObj [(''label'', JStr ''C''), (''confidence'', JNum (1 / 5))]])"
proof -
  have a: "cv2_imdecode tied_env [255, 216, 255] = Inr (Some example_image)"
    "mp_detect tied_env (cvtColor_BGR2RGB example_image) = example_hand # []"
    "model_predict_proba tied_env
        \<lparr>df_columns = feature_names, df_rows = [flatten_coords example_hand]\<rparr>
      = Inr ([2 / 5, 2 / 5, 1 / 5] # [])"
    "[2 / 5, 2 / 5, 1 / 5 :: real] \<noteq> []"
    "length (model_classes tied_env) = length [2 / 5, 2 / 5, 1 / 5 :: real]"
    "is_argsort [2 / 5, 2 / 5, 1 / 5] (np_argsort tied_env [2 / 5, 2 / 5, 1 / 5])"
    by (simp_all add: tied_env_def example_env_def stable_argsort_ok)
  have s: "reversed (last3 (np_argsort tied_env [2 / 5, 2 / 5, 1 / 5])) = [1, 0, 2]"
    by (simp add: tied_env_def example_env_def stable_argsort_tied reversed_def last3_def)
  have c: "model_classes tied_env = [''A'', ''B'', ''C'']"
    by (simp add: tied_env_def example_env_def)
  have m: "Max (set [2 / 5, 2 / 5, 1 / 5 :: real]) = 2 / 5" by simp
  show ?thesis
    unfolding predict_classified[OF example_request_frame a(1) a(2) length_example_hand
        a(3) a(4) a(5) a(6) np_argmax_tied] s c m
    by simp
qed

text \<open>
  Claim C6, amended. Whenever a hand is detected and the model has at least three
  classes, the list \<open>top_predictions\<close> of the answer, in the low-confidence and in the
  accepted case alike, has exactly three entries of non-increasing confidence, and the
  confidence of the first is the top probability. The first label is the best label
  whenever the top probability is reached by one class only.
\<close>

theorem top_predictions_ranked:
  assumes "files req ''frame'' = Some bs" and "cv2_imdecode env bs = Inr (Some img)"
    and "mp_detect env (cvtColor_BGR2RGB img) = h # hs" and "length h = 21"
    and "model_predict_proba env \<lparr>df_columns = feature_names, df_rows = [flatten_coords h]\<rparr>
           = Inr (probs # rest)"
    and "3 \<le> length probs" and "length (model_classes env) = length probs"
    and "is_argsort probs (np_argsort env probs)"
  shows "\<exists>l1 c1 l2 c2 l3 c3.
           json_get ''top_predictions'' (body_of (fst (predict env req)))
             = Some (JArr [JObj [(''label'', JStr l1), (''confidence'', JNum c1)],
                           JObj [(''label'', JStr l2), (''confidence'', JNum c2)],
                           JObj [(''label'', JStr l3), (''confidence'', JNum c3)]])
           \<and> c3 \<le> c2 \<and> c2 \<le> c1 \<and> c1 = Max (set probs)
           \<and> (\<forall>i. np_argmax probs = Inr i \<and> (\<forall>j<length probs. j \<noteq> i \<longrightarrow> probs ! j < probs ! i)
                  \<longrightarrow> l1 = model_classes env ! i)"
proof -
  have ne: "probs \<noteq> []" using assms(6) by auto
  from np_argmax_Inr[OF ne] obtain i where
    i: "np_argmax probs = Inr i" "i < length probs" "probs ! i = Max (set probs)" by blast
  note p = predict_classified[OF assms(1-5) ne assms(7,8) i(1)]
  from top3_shape[OF assms(8) assms(6)] obtain a b c where
    abc: "reversed (last3 (np_argsort env probs)) = [a, b, c]"
      "probs ! c \<le> probs ! b" "probs ! b \<le> probs ! a" "probs ! a = Max (set probs)"
      "a < length probs"
    by blast
  have tops: "json_get ''top_predictions'' (body_of (fst (predict env req)))
             = Some (JArr [JObj [(''label'', JStr (model_classes env ! a)), (''confidence'', JNum (probs ! a))],
                           JObj [(''label'', JStr (model_classes env ! b)), (''confidence'', JNum (probs ! b))],
                           JObj [(''label'', JStr (model_classes env ! c)), (''confidence'', JNum (probs ! c))]])"
    unfolding p abc(1) by simp
  have uniq: "model_classes env ! a = model_classes env ! k"
    if "np_argmax probs = Inr k" "\<forall>j<length probs. j \<noteq> k \<longrightarrow> probs ! j < probs ! k" for k
  proof -
    have k: "k = i" using that(1) i(1) by simp
    have "a = k"
    proof (rule ccontr)
      assume "a \<noteq> k"
      then have "probs ! a < probs ! k" using that(2) abc(5) by blast
      then show False using abc(4) i(3) k by simp
    qed
    then show ?thesis by simp
  qed
  show ?thesis
    using tops abc(2,3,4) uniq by blast
qed

theorem top_predictions_ranked_witness:
  "(3::nat) \<le> length [1 / 10, 7 / 10, 1 / 5 :: real]
   \<and> np_argmax [1 / 10, 7 / 10, 1 / 5] = Inr 1
   \<and> [1 / 10, 7 / 10, 1 / 5 :: real] ! 0 < [1 / 10, 7 / 10, 1 / 5] ! 1
   \<and> [1 / 10, 7 / 10, 1 / 5 :: real] ! 2 < [1 / 10, 7 / 10, 1 / 5] ! 1
   \<and> (\<exists>c1 l2 c2 l3 c3.
         json_get ''top_predictions'' (body_of (fst (predict accepting_env example_request)))
           = Some (JArr [JObj [(''label'', JStr ''B''), (''confidence'', JNum c1)],
                         JObj [(''label'', JStr l2), (''confidence'', JNum c2)],
                         JObj [(''label'', JStr l3), (''confidence'', JNum c3)]])
         \<and> c3 \<le> c2 \<and> c2 \<le> c1 \<and> c1 = 7 / 10)"
proof -
  have a: "cv2_imdecode accepting_env [255, 216, 255] = Inr (Some example_image)"
    "mp_detect accepting_env (cvtColor_BGR2RGB example_image) = example_hand # []"
    "model_predict_proba accepting_env
        \<lparr>df_columns = feature_names, df_rows = [flatten_coords example_hand]\<rparr>
      = Inr ([1 / 10, 7 / 10, 1 / 5] # [])"
    "3 \<le> length [1 / 10, 7 / 10, 1 / 5 :: real]"
    "length (model_classes accepting_env) = length [1 / 10, 7 / 10, 1 / 5 :: real]"
    "is_argsort [1 / 10, 7 / 10, 1 / 5] (np_argsort accepting_env [1 / 10, 7 / 10, 1 / 5])"
    by (simp_all add: accepting_env_def example_env_def stable_argsort_ok)
  have ma: "Max (set [1 / 10, 7 / 10, 1 / 5 :: real]) = 7 / 10" by simp
  have ca: "model_classes accepting_env ! 1 = ''B''"
    by (simp add: accepting_env_def example_env_def)
  have u: "\<forall>j<length [1 / 10, 7 / 10, 1 / 5 :: real]. j \<noteq> 1 \<longrightarrow>
         [1 / 10, 7 / 10, 1 / 5 :: real] ! j < [1 / 10, 7 / 10, 1 / 5] ! 1"
    by (simp add: less_Suc_eq numeral_3_eq_3)
  from top_predictions_ranked[OF example_request_frame a(1) a(2) length_example_hand
      a(3) a(4) a(5) a(6), unfolded ma]
  obtain l1 c1 l2 c2 l3 c3 where
    t: "json_get ''top_predictions'' (body_of (fst (predict accepting_env example_request)))
          = Some (JArr [JObj [(''label'', JStr l1), (''confidence'', JNum c1)],
                        JObj [(''label'', JStr l2), (''confidence'', JNum c2)],
                        JObj [(''label'', JStr l3), (''confidence'', JNum c3)]])"
       "c3 \<le> c2" "c2 \<le> c1" "c1 = 7 / 10"
       "\<forall>i. np_argmax [1 / 10, 7 / 10, 1 / 5] = Inr i
             \<and> (\<forall>j<length [1 / 10, 7 / 10, 1 / 5 :: real]. j \<noteq> i \<longrightarrow>
                   [1 / 10, 7 / 10, 1 / 5 :: real] ! j < [1 / 10, 7 / 10, 1 / 5] ! i)
             \<longrightarrow> l1 = model_classes accepting_env ! i"
    by blast
  have "l1 = model_classes accepting_env ! 1"
    using t(5)[rule_format, of 1] np_argmax_accepting u by blast
  then have l1: "l1 = ''B''" using ca by simp
  have v: "[1 / 10, 7 / 10, 1 / 5 :: real] ! 0 < [1 / 10, 7 / 10, 1 / 5] ! 1"
    "[1 / 10, 7 / 10, 1 / 5 :: real] ! 2 < [1 / 10, 7 / 10, 1 / 5] ! 1"
    by simp_all
  have e: "\<exists>c1 l2 c2 l3 c3.
         json_get ''top_predictions'' (body_of (fst (predict accepting_env example_request)))
           = Some (JArr [JObj [(''label'', JStr ''B''), (''confidence'', JNum c1)],
                         JObj [(''label'', JStr l2), (''confidence'', JNum c2)],
                         JObj [(''label'', JStr l3), (''confidence'', JNum c3)]])
         \<and> c3 \<le> c2 \<and> c2 \<le> c1 \<and> c1 = 7 / 10"
    using t(1-4) unfolding l1 by blast
  show ?thesis
    using a(4) np_argmax_accepting v e by (intro conjI)
qed

text \<open>
  Claim C8. When a hand is detected and the body of the \<^verbatim>\<open>try\<close> block raises an
  exception, the answer has status 500 and the body \<open>{"error": text}\<close>, where the text
  is that of the exception, unchanged.
\<close>

theorem classification_failure_500:
  assumes "files req ''frame'' = Some bs" and "cv2_imdecode env bs = Inr (Some img)"
    and "mp_detect env (cvtColor_BGR2RGB img) = h # hs" and "length h = 21"
    and "predict_try env \<lparr>df_columns = feature_names, df_rows = [flatten_coords h]\<rparr> = Inl e"
  shows "fst (predict env req) = Response 500 (JObj [(''error'', JStr (str_of_exception e))])"
  by (simp only: predict_hand[OF assms(1-4)] assms(5) sum.case fst_conv)

theorem classification_failure_500_witness:
  "predict_try failing_env \<lparr>df_columns = feature_names, df_rows = [flatten_coords example_hand]\<rparr>
     = Inl (OtherException ''model is not fitted'')
   \<and> fst (predict failing_env example_request)
       = Response 500 (JObj [(''error'', JStr ''model is not fitted'')])"
proof -
  have a: "cv2_imdecode failing_env [255, 216, 255] = Inr (Some example_image)"
    "mp_detect failing_env (cvtColor_BGR2RGB example_image) = example_hand # []"
    by (simp_all add: failing_env_def example_env_def)
  have "model_predict_proba failing_env
          \<lparr>df_columns = feature_names, df_rows = [flatten_coords example_hand]\<rparr>
        = Inl (OtherException ''model is not fitted'')"
    by (simp add: failing_env_def example_env_def)
  then have r: "predict_try failing_env
          \<lparr>df_columns = feature_names, df_rows = [flatten_coords example_hand]\<rparr>
        = Inl (OtherException ''model is not fitted'')"
    by (rule predict_try_raise)
  show ?thesis
    using classification_failure_500[OF example_request_frame a(1) a(2) length_example_hand r] r
    by simp
qed

text \<open>
  Claim C5, as stated, fails for an image with more than one detectable hand: the
  detector is capped at one hand, the view classifies it, and the answer can carry a
  prediction. Here two hands are detectable and the prediction is \<open>B\<close>.
\<close>

theorem multi_hand_counterexample:
  "files example_request ''frame'' = Some [255, 216, 255]
   \<and> cv2_imdecode two_hands_env [255, 216, 255] = Inr (Some example_image)
   \<and> length (mp_detect two_hands_env (cvtColor_BGR2RGB example_image)) = 2
   \<and> json_get ''prediction'' (body_of (fst (predict two_hands_env example_request)))
       = Some (JStr ''B'')"
proof -
  have a: "cv2_imdecode two_hands_env [255, 216, 255] = Inr (Some example_image)"
    "mp_detect two_hands_env (cvtColor_BGR2RGB example_image) = example_hand # [other_hand]"
    "model_predict_proba two_hands_env
        \<lparr>df_columns = feature_names, df_rows = [flatten_coords example_hand]\<rparr>
      = Inr ([1 / 10, 7 / 10, 1 / 5] # [])"
    "[1 / 10, 7 / 10, 1 / 5 :: real] \<noteq> []"
    "length (model_classes two_hands_env) = length [1 / 10, 7 / 10, 1 / 5 :: real]"
    "is_argsort [1 / 10, 7 / 10, 1 / 5] (np_argsort two_hands_env [1 / 10, 7 / 10, 1 / 5])"
    by (simp_all add: two_hands_env_def example_env_def stable_argsort_ok)
  have c: "model_classes two_hands_env = [''A'', ''B'', ''C'']"
    by (simp add: two_hands_env_def example_env_def)
  have m: "Max (set [1 / 10, 7 / 10, 1 / 5 :: real]) = 7 / 10" by simp
  have p: "json_get ''prediction'' (body_of (fst (predict two_hands_env example_request)))
       = Some (JStr ''B'')"
    unfolding predict_classified[OF example_request_frame a(1) a(2) length_example_hand
        a(3) a(4) a(5) a(6) np_argmax_accepting] c m
    by simp
  show ?thesis using example_request_frame a(1) a(2) p by simp
qed

text \<open>
  Claim C5, amended. For an image with no detectable hand the view does not raise and
  answers with status 200, \<open>prediction\<close> null and the message \<open>no hand detected\<close>.
  For an image with more than one detectable hand (of 21 landmarks each) the view does
  not raise either, and its answer is the one it gives when the first hand alone is
  detectable: a prediction, a low-confidence null prediction or a 500 error.
\<close>

theorem first_hand_only:
  assumes "files req ''frame'' = Some bs" and "cv2_imdecode env bs = Inr (Some img)"
  shows "(mp_detect env (cvtColor_BGR2RGB img) = [] \<longrightarrow>
            predict env req =
              (Response 200 (JObj [(''prediction'', JNull), (''message'', JStr ''no hand detected'')]),
               []))
         \<and> (mp_detect env (cvtColor_BGR2RGB img) = h # hs \<and> length h = 21 \<longrightarrow>
              (\<exists>st body. fst (predict env req) = Response st body)
              \<and> predict env req = predict (env\<lparr>mp_detect := \<lambda>img_rgb. [h]\<rparr>) req)"
proof (intro conjI impI)
  assume "mp_detect env (cvtColor_BGR2RGB img) = []"
  then show "predict env req =
              (Response 200 (JObj [(''prediction'', JNull), (''message'', JStr ''no hand detected'')]),
               [])"
    using assms by (simp add: predict_def extract_landmarks_none)
next
  assume d: "mp_detect env (cvtColor_BGR2RGB img) = h # hs \<and> length h = 21"
  let ?df = "\<lparr>df_columns = feature_names, df_rows = [flatten_coords h]\<rparr>"
  note p = predict_hand[OF assms d[THEN conjunct1] d[THEN conjunct2]]
  show "\<exists>st body. fst (predict env req) = Response st body"
  proof (cases "predict_try env ?df")
    case (Inl e)
    then show ?thesis unfolding p by simp
  next
    case (Inr r)
    then show ?thesis unfolding p using predict_try_Response[OF Inr] by simp
  qed
  have 1: "cv2_imdecode (env\<lparr>mp_detect := \<lambda>img_rgb. [h]\<rparr>) bs = Inr (Some img)"
    using assms(2) by (simp add: cv2_imdecode_def split: if_splits)
  have 2: "mp_detect (env\<lparr>mp_detect := \<lambda>img_rgb. [h]\<rparr>) (cvtColor_BGR2RGB img) = h # []"
    by simp
  show "predict env req = predict (env\<lparr>mp_detect := \<lambda>img_rgb. [h]\<rparr>) req"
    unfolding p predict_hand[OF assms(1) 1 2 d[THEN conjunct2]] predict_try_mp_detect ..
qed

theorem first_hand_only_witness:
  "files example_request ''frame'' = Some [255, 216, 255]
   \<and> cv2_imdecode (example_env [] (Inr [])) [255, 216, 255] = Inr (Some example_image)
   \<and> mp_detect (example_env [] (Inr [])) (cvtColor_BGR2RGB example_image) = []
   \<and> predict (example_env [] (Inr [])) example_request =
        (Response 200 (JObj [(''prediction'', JNull), (''message'', JStr ''no hand detected'')]), [])
   \<and> cv2_imdecode two_hands_env [255, 216, 255] = Inr (Some example_image)
   \<and> mp_detect two_hands_env (cvtColor_BGR2RGB example_image) = example_hand # [other_hand]
   \<and> length example_hand = 21
   \<and> (\<exists>st body. fst (predict two_hands_env example_request) = Response st body)
   \<and> predict two_hands_env example_request
       = predict (two_hands_env\<lparr>mp_detect := \<lambda>img_rgb. [example_hand]\<rparr>) example_request"
proof -
  have n: "cv2_imdecode (example_env [] (Inr [])) [255, 216, 255] = Inr (Some example_image)"
    "mp_detect (example_env [] (Inr [])) (cvtColor_BGR2RGB example_image) = []"
    by (simp_all add: example_env_def)
  have t: "cv2_imdecode two_hands_env [255, 216, 255] = Inr (Some example_image)"
    "mp_detect two_hands_env (cvtColor_BGR2RGB example_image) = example_hand # [other_hand]"
    by (simp_all add: two_hands_env_def example_env_def)
  note a = first_hand_only[OF example_request_frame n(1), THEN conjunct1, THEN mp, OF n(2)]
  note b = first_hand_only[OF example_request_frame t(1), where h = example_hand
      and hs = "[other_hand]", THEN conjunct2, THEN mp, OF conjI[OF t(2) length_example_hand]]
  show ?thesis
    using example_request_frame n t length_example_hand a b[THEN conjunct1] b[THEN conjunct2]
    by (intro conjI)
qed

section \<open>The static route\<close>

text \<open>
  Claim C10. The route sends a file exactly when the frontend directory exists and the
  path is \<open>index.html\<close>, \<open>script.js\<close> or \<open>style.css\<close>, or starts with \<open>assets/\<close> and
  has no \<open>..\<close> anywhere in it; the file sent is the one of that path. Every other path is
  answered with the 404 JSON error, and so is every path with \<open>..\<close> in it.
\<close>

theorem frontend_static_served_only_if:
  "(frontend_static frontend_isdir path = SendFromDirectory f \<longleftrightarrow>
      f = path \<and> frontend_isdir
      \<and> (path = ''index.html'' \<or> path = ''script.js'' \<or> path = ''style.css''
          \<or> (prefix ''assets/'' path \<and> \<not> (\<exists>pre suf. path = pre @ ''..'' @ suf))))
   \<and> ((\<forall>g. frontend_static frontend_isdir path \<noteq> SendFromDirectory g) \<longrightarrow>
        frontend_static frontend_isdir path = Response 404 (JObj [(''error'', JStr ''Not found'')]))
   \<and> ((\<exists>pre suf. path = pre @ ''..'' @ suf) \<longrightarrow>
        frontend_static frontend_isdir path = Response 404 (JObj [(''error'', JStr ''Not found'')]))"
proof -
  have a: "\<not> str_contains ''..'' p" if "p \<in> set allowed" for p
    using that by (auto simp: allowed_def)
  show ?thesis
    using a[of path] unfolding str_contains_iff[symmetric]
    by (auto simp: frontend_static_def startswith_def allowed_def)
qed

theorem frontend_static_served_only_if_witness:
  "frontend_static True ''assets/asl_gifs/A.jpg'' = SendFromDirectory ''assets/asl_gifs/A.jpg''
   \<and> (\<forall>g. frontend_static True ''app.py'' \<noteq> SendFromDirectory g)
   \<and> frontend_static True ''app.py'' = Response 404 (JObj [(''error'', JStr ''Not found'')])
   \<and> (\<exists>pre suf. ''assets/../app.py'' = pre @ ''..'' @ suf)
   \<and> frontend_static True ''assets/../app.py'' = Response 404 (JObj [(''error'', JStr ''Not found'')])"
proof -
  have "\<not> str_contains ''..'' ''assets/asl_gifs/A.jpg''" by simp
  then have n: "\<not> (\<exists>pre suf. ''assets/asl_gifs/A.jpg'' = pre @ ''..'' @ suf)"
    unfolding str_contains_iff .
  have p: "prefix ''assets/'' ''assets/asl_gifs/A.jpg''" by simp
  have a: "\<forall>g. frontend_static True ''app.py'' \<noteq> SendFromDirectory g"
    by (simp add: frontend_static_def allowed_def startswith_def)
  have "str_contains ''..'' ''assets/../app.py''" by simp
  then have d: "\<exists>pre suf. ''assets/../app.py'' = pre @ ''..'' @ suf"
    unfolding str_contains_iff .
  have s: "frontend_static True ''assets/asl_gifs/A.jpg'' = SendFromDirectory ''assets/asl_gifs/A.jpg''"
    using frontend_static_served_only_if[where frontend_isdir = True
        and path = "''assets/asl_gifs/A.jpg''" and f = "''assets/asl_gifs/A.jpg''"] n p
    by blast
  have b: "frontend_static True ''app.py'' = Response 404 (JObj [(''error'', JStr ''Not found'')])"
    by (rule frontend_static_served_only_if[where frontend_isdir = True and path = "''app.py''"
          and f = "''app.py''", THEN conjunct2, THEN conjunct1, THEN mp, OF a])
  have c: "frontend_static True ''assets/../app.py'' = Response 404 (JObj [(''error'', JStr ''Not found'')])"
    by (rule frontend_static_served_only_if[where frontend_isdir = True
          and path = "''assets/../app.py''" and f = "''assets/../app.py''",
          THEN conjunct2, THEN conjunct2, THEN mp, OF d])
  show ?thesis using s a b c d by (intro conjI)
qed

section \<open>The fold count of the trainer\<close>

text \<open>
  Every class that is left after the rare classes are dropped has at least ten rows, so
  no class of the filtered frame is ever smaller than five. The fold count is computed
  from the counts of the raw frame.
\<close>

lemma count_list_filter:
  "count_list (filter P xs) x = (if P x then count_list xs x else 0)"
  by (induction xs) auto

lemma map_fst_filter_counts:
  "map fst (filter (\<lambda>(l, c). c < n) (map (\<lambda>l. (l, f l)) xs)) = filter (\<lambda>l. f l < n) xs"
  by (induction xs) simp_all

lemma tr_rare_classes_eq:
  "tr_rare_classes (train_model df0) =
     filter (\<lambda>l. count_list (map snd df0) l < 10) (remdups (map snd df0))"
  by (simp add: train_model_def Let_def value_counts_def MIN_SAMPLES_PER_CLASS_def
        map_fst_filter_counts)

lemma rare_classes_iff:
  "l \<in> set (tr_rare_classes (train_model df0)) \<longleftrightarrow>
     l \<in> set (map snd df0) \<and> count_list (map snd df0) l < 10"
  unfolding tr_rare_classes_eq by auto

lemma tr_df_filter:
  "tr_df (train_model df0) = filter (\<lambda>(features, l). l \<notin> set (tr_rare_classes (train_model df0))) df0"
proof -
  have "tr_df (train_model df0) =
          (if tr_rare_classes (train_model df0) \<noteq> []
           then filter (\<lambda>(features, l). l \<notin> set (tr_rare_classes (train_model df0))) df0
           else df0)"
    by (simp add: train_model_def Let_def)
  then show ?thesis by (cases "tr_rare_classes (train_model df0) = []") simp_all
qed

lemma map_snd_filter:
  "map snd (filter (\<lambda>(features, l). P l) xs) = filter P (map snd xs)"
  by (induction xs) auto

lemma remaining_classes_large:
  assumes "l \<in> set (map snd (tr_df (train_model df0)))"
  shows "10 \<le> count_list (map snd (tr_df (train_model df0))) l"
proof -
  let ?rare = "set (tr_rare_classes (train_model df0))"
  have eq: "map snd (tr_df (train_model df0)) = filter (\<lambda>l. l \<notin> ?rare) (map snd df0)"
    by (subst tr_df_filter) (rule map_snd_filter)
  from assms have l: "l \<notin> ?rare" "l \<in> set (map snd df0)" unfolding eq by auto
  then have "10 \<le> count_list (map snd df0) l" using rare_classes_iff[of l df0] by auto
  then show ?thesis unfolding eq using l(1) by (simp add: count_list_filter)
qed

lemma cv_folds_value:
  "tr_cv_folds (train_model df0) =
     (if df0 = [] then 5
      else if Min (set (map (count_list (map snd df0)) (map snd df0))) < 5
      then max 2 (Min (set (map (count_list (map snd df0)) (map snd df0))))
      else 5)"
  by (simp add: train_model_def Let_def value_counts_def series_min_def comp_def image_image)

text \<open>
  Claim C7. On a training file with twelve rows of \<open>A\<close>, eleven of \<open>B\<close> and three of
  \<open>C\<close> the trainer drops \<open>C\<close>, the classes left have twelve and eleven rows, and
  the fold count is 3: it is chosen from the counts taken before the rare classes were
  dropped, not from the classes that remain.
\<close>

theorem cv_folds_from_raw_counts:
  "tr_rare_classes (train_model example_csv) = [''C'']
   \<and> value_counts (map snd (tr_df (train_model example_csv))) = [(''A'', 12), (''B'', 11)]
   \<and> tr_cv_folds (train_model example_csv) = 3"
  by code_simp

end
